theory Spec2Isabelle
  imports Main
begin

section \<open>CloudWatch RUM metrics destination: the resource adapter\<close>

text \<open>
  A shallow embedding of \<^verbatim>\<open>internal/service/rum/metrics_destination.go\<close>:
  the three lifecycle functions \<^verbatim>\<open>resourceMetricsDestinationPut\<close>,
  \<^verbatim>\<open>resourceMetricsDestinationRead\<close>, \<^verbatim>\<open>resourceMetricsDestinationDelete\<close>
  and the finder \<^verbatim>\<open>FindMetricsDestinationByName\<close>.

  The mutable \<^verbatim>\<open>*schema.ResourceData\<close> is passed explicitly and returned updated;
  \<^verbatim>\<open>diag.Diagnostics\<close> is a list; a Go \<^verbatim>\<open>error\<close> that may be nil is an
  \<open>error option\<close>; a Go pointer that may be nil is an option. The remote service is a
  record of responses, one per API call. \<^verbatim>\<open>context.Context\<close> and the two
  \<^verbatim>\<open>log.Printf\<close> lines carry no data of the adapter and are left out.
\<close>

subsection \<open>Requests, records and errors\<close>

text \<open>\<^verbatim>\<open>cloudwatchrum.ListRumMetricsDestinationsInput\<close>, as the finder fills it.\<close>

record ListRumMetricsDestinationsInput =
  list_AppMonitorName :: string

text \<open>\<^verbatim>\<open>cloudwatchrum.PutRumMetricsDestinationInput\<close>: the two fields set with
  \<^verbatim>\<open>aws.String\<close> at construction are always there, the two ARN pointers may stay nil.\<close>

record PutRumMetricsDestinationInput =
  put_AppMonitorName :: string
  put_Destination :: string
  put_DestinationArn :: "string option"
  put_IamRoleArn :: "string option"

record DeleteRumMetricsDestinationInput =
  del_AppMonitorName :: string
  del_Destination :: string
  del_DestinationArn :: "string option"

text \<open>\<^verbatim>\<open>cloudwatchrum.MetricDestinationSummary\<close>: three string pointers.\<close>

record MetricDestinationSummary =
  Destination :: "string option"
  DestinationArn :: "string option"
  IamRoleArn :: "string option"

text \<open>\<^verbatim>\<open>cloudwatchrum.ListRumMetricsDestinationsOutput\<close>: a slice of pointers to
  summaries (each may be nil) and the token of the next page.\<close>

record ListRumMetricsDestinationsOutput =
  Destinations :: "MetricDestinationSummary option list"
  NextToken :: "string option"

text \<open>
  The errors a call of the client returns: \<open>AwsError code message\<close> is an
  \<^verbatim>\<open>awserr.Error\<close> of the service, \<open>OtherError message\<close> any error that is not one
  (transport, cancellation).
\<close>

datatype remote_error =
    AwsError string string
  | OtherError string

text \<open>
  The values of Go's \<^verbatim>\<open>error\<close> interface that the adapter handles.
  \<^item> \<open>RemoteError e\<close>: an error of the client, passed on as it is;
  \<^item> \<open>NotFoundError lastError lastRequest\<close>: \<^verbatim>\<open>retry.NotFoundError\<close> with the two
    fields the finder sets;
  \<^item> \<open>TooManyResultsError count lastRequest\<close>: what
    \<^verbatim>\<open>tfresource.NewTooManyResultsError\<close> builds.
\<close>

datatype error =
    RemoteError remote_error
  | NotFoundError "remote_error option" ListRumMetricsDestinationsInput
  | TooManyResultsError nat ListRumMetricsDestinationsInput

definition ErrCodeResourceNotFoundException :: string where
  "ErrCodeResourceNotFoundException = ''ResourceNotFoundException''"

text \<open>\<^verbatim>\<open>tfawserr.ErrCodeEquals\<close>, on the error of a call of the client: it is a service
  error with that code; false on nil.\<close>

fun ErrCodeEquals :: "remote_error option \<Rightarrow> string \<Rightarrow> bool" where
  "ErrCodeEquals (Some (AwsError c m)) code = (c = code)"
| "ErrCodeEquals _ code = False"

text \<open>Modelled from the spec: \<^verbatim>\<open>tfresource.NewEmptyResultError\<close> belongs to this
  repository and is not among the source files. By the spec zero entries fail with a
  \<open>NotFoundError\<close>; it is given the request only, so it has no underlying remote
  error.\<close>

definition NewEmptyResultError :: "ListRumMetricsDestinationsInput \<Rightarrow> error" where
  "NewEmptyResultError lastRequest = NotFoundError None lastRequest"

text \<open>Modelled from the spec: \<^verbatim>\<open>tfresource.NewTooManyResultsError\<close> belongs to this
  repository and is not among the source files. By the spec more than one entry fails
  with an ambiguity error carrying the count.\<close>

definition NewTooManyResultsError :: "nat \<Rightarrow> ListRumMetricsDestinationsInput \<Rightarrow> error" where
  "NewTooManyResultsError count lastRequest = TooManyResultsError count lastRequest"

text \<open>Modelled from the spec: \<^verbatim>\<open>tfresource.NotFound\<close> belongs to this repository and is
  not among the source files. By the spec a caller tells "not found" from the other
  errors by the error being a \<open>NotFoundError\<close>; nil is no error.\<close>

fun NotFound :: "error option \<Rightarrow> bool" where
  "NotFound (Some (NotFoundError e r)) = True"
| "NotFound _ = False"

subsection \<open>Diagnostics\<close>

text \<open>An error diagnostic keeps the format string and the arguments it was made
  from.\<close>

datatype fmt_arg = StrArg string | ErrArg error

datatype diagnostic = ErrorDiag string "fmt_arg list"

type_synonym Diagnostics = "diagnostic list"

text \<open>Modelled from the spec: \<^verbatim>\<open>sdkdiag.AppendErrorf\<close> belongs to this repository and is
  not among the source files. It appends one error diagnostic; by the spec the error
  carries the operation, the identifier and the cause, which are the format string and
  the arguments of the call.\<close>

definition AppendErrorf :: "Diagnostics \<Rightarrow> string \<Rightarrow> fmt_arg list \<Rightarrow> Diagnostics" where
  "AppendErrorf diags format args = diags @ [ErrorDiag format args]"

subsection \<open>The resource data\<close>

text \<open>
  The four keys of the schema: \<^verbatim>\<open>"app_monitor_name"\<close>, \<^verbatim>\<open>names.AttrDestination\<close>,
  \<^verbatim>\<open>names.AttrDestinationARN\<close>, \<^verbatim>\<open>names.AttrIAMRoleARN\<close>. They are the keys of one Go
  map literal, hence pairwise distinct.
\<close>

datatype attr = AppMonitorName | AttrDestination | AttrDestinationARN | AttrIAMRoleARN

text \<open>
  \<^verbatim>\<open>schema.ResourceData\<close>: the identifier, the new-resource mark and the string
  attributes (\<open>None\<close>: not set).
\<close>

record ResourceData =
  rd_id :: string
  rd_isNew :: bool
  rd_attrs :: "attr \<Rightarrow> string option"

definition Id_rd :: "ResourceData \<Rightarrow> string" where
  "Id_rd d = rd_id d"

definition SetId :: "ResourceData \<Rightarrow> string \<Rightarrow> ResourceData" where
  "SetId d v = d\<lparr>rd_id := v\<rparr>"

definition IsNewResource :: "ResourceData \<Rightarrow> bool" where
  "IsNewResource d = rd_isNew d"

text \<open>\<^verbatim>\<open>d.Get(key).(string)\<close>: the value, or the zero value \<^verbatim>\<open>""\<close> when not set.\<close>

definition Get :: "ResourceData \<Rightarrow> attr \<Rightarrow> string" where
  "Get d key = (case rd_attrs d key of None \<Rightarrow> [] | Some v \<Rightarrow> v)"

text \<open>\<^verbatim>\<open>d.GetOk(key)\<close>: the value, and whether it is set to something other than the zero
  value.\<close>

definition GetOk :: "ResourceData \<Rightarrow> attr \<Rightarrow> string \<times> bool" where
  "GetOk d key = (Get d key, Get d key \<noteq> [])"

text \<open>\<^verbatim>\<open>d.Set(key, value)\<close> with a string or a string pointer: a nil pointer unsets the
  attribute. The error it returns is dropped by every caller here.\<close>

definition Set_rd :: "ResourceData \<Rightarrow> attr \<Rightarrow> string option \<Rightarrow> ResourceData" where
  "Set_rd d key v = d\<lparr>rd_attrs := (rd_attrs d)(key := v)\<rparr>"

subsection \<open>The remote service\<close>

text \<open>
  The client, as the adapter sees it. The put and delete calls answer with an error or
  nil. The list call answers with the pages it would hand to the callback, each with the
  \<^verbatim>\<open>lastPage\<close> flag the paginator gives it, and the error (or nil) the paginator
  ends with when the callback never stops it.
\<close>

record conn =
  PutRumMetricsDestination :: "PutRumMetricsDestinationInput \<Rightarrow> remote_error option"
  DeleteRumMetricsDestination :: "DeleteRumMetricsDestinationInput \<Rightarrow> remote_error option"
  ListRumMetricsDestinations :: "ListRumMetricsDestinationsInput \<Rightarrow>
     (ListRumMetricsDestinationsOutput option \<times> bool) list \<times> remote_error option"

text \<open>
  The paginator of the SDK: it calls \<open>fn\<close> on each page in turn, stops when \<open>fn\<close> answers false (then there is no
  error, the last request having succeeded) and otherwise ends with the error of the
  listing. The variable the callback closes over is the state \<open>s\<close>.
\<close>

fun ListRumMetricsDestinationsPagesWithContext ::
    "('p \<Rightarrow> bool \<Rightarrow> 's \<Rightarrow> bool \<times> 's) \<Rightarrow> ('p \<times> bool) list
      \<Rightarrow> remote_error option \<Rightarrow> 's \<Rightarrow> remote_error option \<times> 's" where
  "ListRumMetricsDestinationsPagesWithContext fn [] err s = (err, s)"
| "ListRumMetricsDestinationsPagesWithContext fn ((page, lastPage) # rest) err s =
     (case fn page lastPage s of
        (True, s') \<Rightarrow> ListRumMetricsDestinationsPagesWithContext fn rest err s'
      | (False, s') \<Rightarrow> (None, s'))"

subsection \<open>FindMetricsDestinationByName\<close>

text \<open>The callback of the finder (lines 148 to 160); \<open>output\<close> is the slice it appends
  to.\<close>

definition collect :: "ListRumMetricsDestinationsOutput option \<Rightarrow> bool
    \<Rightarrow> MetricDestinationSummary list \<Rightarrow> bool \<times> MetricDestinationSummary list" where
  "collect page lastPage output =
     (case page of
        None \<Rightarrow> (\<not> lastPage, output)
      | Some pg \<Rightarrow>
          (\<not> lastPage,
           foldl (\<lambda>out v. case v of None \<Rightarrow> out | Some x \<Rightarrow> out @ [x]) output (Destinations pg)))"

definition list_input :: "string \<Rightarrow> ListRumMetricsDestinationsInput" where
  "list_input name = \<lparr>list_AppMonitorName = name\<rparr>"

text \<open>The listing of the finder: the error of the paginator and the accumulated
  \<open>output\<close>.\<close>

definition list_destinations :: "conn \<Rightarrow> string
    \<Rightarrow> remote_error option \<times> MetricDestinationSummary list" where
  "list_destinations c name =
     (case ListRumMetricsDestinations c (list_input name) of
        (pages, err) \<Rightarrow> ListRumMetricsDestinationsPagesWithContext collect pages err [])"

definition FindMetricsDestinationByName :: "conn \<Rightarrow> string \<Rightarrow> error + MetricDestinationSummary" where
  "FindMetricsDestinationByName c name =
     (case list_destinations c name of
        (err, output) \<Rightarrow>
          if ErrCodeEquals err ErrCodeResourceNotFoundException
          then Inl (NotFoundError err (list_input name))
          else (case err of
             Some e \<Rightarrow> Inl (RemoteError e)
           | None \<Rightarrow>
               if length output = 0 then Inl (NewEmptyResultError (list_input name))
               else if length output > 1
               then Inl (NewTooManyResultsError (length output) (list_input name))
               else Inr (output ! 0)))"

subsection \<open>Read, Put, Delete\<close>

text \<open>The error half of a result of the finder, as the nil-or-error \<^verbatim>\<open>err\<close> of the
  source.\<close>

fun err_of :: "error + 'a \<Rightarrow> error option" where
  "err_of (Inl e) = Some e"
| "err_of (Inr v) = None"

definition resourceMetricsDestinationRead :: "conn \<Rightarrow> ResourceData \<Rightarrow> ResourceData \<times> Diagnostics" where
  "resourceMetricsDestinationRead c d =
     (let r = FindMetricsDestinationByName c (Id_rd d) in
      if \<not> IsNewResource d \<and> NotFound (err_of r) then (SetId d [], [])
      else (case r of
         Inl err \<Rightarrow>
           (d, AppendErrorf [] ''reading CloudWatch RUM Metrics Destination (%s): %s''
                 [StrArg (Id_rd d), ErrArg err])
       | Inr dest \<Rightarrow>
           (let d1 = Set_rd d AppMonitorName (Some (Id_rd d));
                d2 = Set_rd d1 AttrDestination (Destination dest);
                d3 = Set_rd d2 AttrDestinationARN (DestinationArn dest);
                d4 = Set_rd d3 AttrIAMRoleARN (IamRoleArn dest)
            in (d4, []))))"

text \<open>The request of Put (lines 64 to 76).\<close>

definition put_input :: "ResourceData \<Rightarrow> PutRumMetricsDestinationInput" where
  "put_input d =
     (let name = Get d AppMonitorName;
          input = \<lparr>put_AppMonitorName = name, put_Destination = Get d AttrDestination,
                   put_DestinationArn = None, put_IamRoleArn = None\<rparr>;
          input1 = (case GetOk d AttrDestinationARN of
                      (v, ok) \<Rightarrow> if ok then input\<lparr>put_DestinationArn := Some v\<rparr> else input);
          input2 = (case GetOk d AttrIAMRoleARN of
                      (v, ok) \<Rightarrow> if ok then input1\<lparr>put_IamRoleArn := Some v\<rparr> else input1)
      in input2)"

definition resourceMetricsDestinationPut :: "conn \<Rightarrow> ResourceData \<Rightarrow> ResourceData \<times> Diagnostics" where
  "resourceMetricsDestinationPut c d =
     (let name = Get d AppMonitorName in
      case PutRumMetricsDestination c (put_input d) of
        Some err \<Rightarrow>
          (d, AppendErrorf [] ''putting CloudWatch RUM Metrics Destination (%s): %s''
                [StrArg name, ErrArg (RemoteError err)])
      | None \<Rightarrow>
          (let d1 = (if IsNewResource d then SetId d name else d) in
           case resourceMetricsDestinationRead c d1 of
             (d2, rdiags) \<Rightarrow> (d2, [] @ rdiags)))"

text \<open>The request of Delete (lines 119 to 126).\<close>

definition delete_input :: "ResourceData \<Rightarrow> DeleteRumMetricsDestinationInput" where
  "delete_input d =
     (let input = \<lparr>del_AppMonitorName = Id_rd d, del_Destination = Get d AttrDestination,
                   del_DestinationArn = None\<rparr>
      in case GetOk d AttrDestinationARN of
           (v, ok) \<Rightarrow> if ok then input\<lparr>del_DestinationArn := Some v\<rparr> else input)"

definition resourceMetricsDestinationDelete :: "conn \<Rightarrow> ResourceData \<Rightarrow> ResourceData \<times> Diagnostics" where
  "resourceMetricsDestinationDelete c d =
     (let err = DeleteRumMetricsDestination c (delete_input d) in
      if ErrCodeEquals err ErrCodeResourceNotFoundException then (d, [])
      else (case err of
         Some e \<Rightarrow>
           (d, AppendErrorf [] ''deleting CloudWatch RUM Metrics Destination (%s): %s''
                 [StrArg (Id_rd d), ErrArg (RemoteError e)])
       | None \<Rightarrow> (d, [])))"

subsection \<open>What the spec says of the accumulated sequence\<close>

text \<open>The non-null entries of a slice of pointers, in order.\<close>

fun non_null :: "'a option list \<Rightarrow> 'a list" where
  "non_null [] = []"
| "non_null (None # vs) = non_null vs"
| "non_null (Some x # vs) = x # non_null vs"

text \<open>The non-null entries of a page; a nil page has none.\<close>

fun entries :: "ListRumMetricsDestinationsOutput option \<Rightarrow> MetricDestinationSummary list" where
  "entries None = []"
| "entries (Some pg) = non_null (Destinations pg)"

text \<open>The pages a callback that answers \<^verbatim>\<open>!lastPage\<close> is called on: all of them up to
  and including the first one flagged as the last.\<close>

fun visited :: "('p \<times> bool) list \<Rightarrow> 'p list" where
  "visited [] = []"
| "visited ((page, lastPage) # rest) = page # (if lastPage then [] else visited rest)"

text \<open>The paginator flags no page but the final one as the last.\<close>

definition last_flag_at_end :: "('p \<times> bool) list \<Rightarrow> bool" where
  "last_flag_at_end pages = (\<forall>e \<in> set (butlast pages). \<not> snd e)"

subsection \<open>Sample remotes and resource data\<close>

definition sample_conn :: "remote_error option \<Rightarrow> remote_error option
    \<Rightarrow> (ListRumMetricsDestinationsOutput option \<times> bool) list \<times> remote_error option \<Rightarrow> conn" where
  "sample_conn put del lst =
     \<lparr>PutRumMetricsDestination = (\<lambda>i. put), DeleteRumMetricsDestination = (\<lambda>i. del),
      ListRumMetricsDestinations = (\<lambda>i. lst)\<rparr>"

definition cw_summary :: MetricDestinationSummary where
  "cw_summary = \<lparr>Destination = Some ''CloudWatch'', DestinationArn = None, IamRoleArn = None\<rparr>"

definition ev_summary :: MetricDestinationSummary where
  "ev_summary = \<lparr>Destination = Some ''Evidently'',
     DestinationArn = Some ''arn:aws:evidently:us-east-1:123456789012:project/p'',
     IamRoleArn = Some ''arn:aws:iam::123456789012:role/r''\<rparr>"

definition page_of :: "MetricDestinationSummary option list \<Rightarrow> ListRumMetricsDestinationsOutput option" where
  "page_of vs = Some \<lparr>Destinations = vs, NextToken = None\<rparr>"

definition throttled :: remote_error where
  "throttled = AwsError ''ThrottlingException'' ''Rate exceeded''"

definition gone :: remote_error where
  "gone = AwsError ''ResourceNotFoundException'' ''no such app monitor''"

definition gone_too :: remote_error where
  "gone_too = AwsError ''ResourceNotFoundException'' ''app monitor deleted''"

definition new_rd :: ResourceData where
  "new_rd = \<lparr>rd_id = [], rd_isNew = True,
     rd_attrs = (\<lambda>k. None)(AppMonitorName := Some ''app1'', AttrDestination := Some ''CloudWatch'')\<rparr>"

definition old_rd :: ResourceData where
  "old_rd = \<lparr>rd_id = ''app1'', rd_isNew = False,
     rd_attrs = (\<lambda>k. None)(AppMonitorName := Some ''app1'', AttrDestination := Some ''Evidently'',
       AttrDestinationARN := Some ''arn:aws:evidently:us-east-1:123456789012:project/p'',
       AttrIAMRoleARN := Some [])\<rparr>"

section \<open>Properties\<close>

subsection \<open>The callback and the paginator\<close>

lemma foldl_append_non_null:
  "foldl (\<lambda>out v. case v of None \<Rightarrow> out | Some x \<Rightarrow> out @ [x]) acc vs = acc @ non_null vs"
  by (induction vs arbitrary: acc rule: non_null.induct) simp_all

lemma collect_entries: "collect page lastPage acc = (\<not> lastPage, acc @ entries page)"
  by (cases page) (simp_all add: collect_def foldl_append_non_null)

lemma ListPages_collect:
  "ListRumMetricsDestinationsPagesWithContext collect pages err acc =
     (if list_ex snd pages then None else err, acc @ concat (map entries (visited pages)))"
proof (induction pages arbitrary: acc)
  case Nil
  show ?case by simp
next
  case (Cons e pages)
  obtain page lastPage where e: "e = (page, lastPage)" by (cases e)
  have step: "ListRumMetricsDestinationsPagesWithContext collect (e # pages) err acc =
      (if lastPage then (None, acc @ entries page)
       else ListRumMetricsDestinationsPagesWithContext collect pages err (acc @ entries page))"
    unfolding e ListRumMetricsDestinationsPagesWithContext.simps collect_entries by simp
  show ?case
    unfolding step by (simp add: e Cons.IH)
qed

lemma visited_all: "last_flag_at_end pages \<Longrightarrow> visited pages = map fst pages"
proof (induction pages)
  case Nil
  show ?case by simp
next
  case (Cons e pages)
  obtain page lastPage where e: "e = (page, lastPage)" by (cases e)
  show ?case
  proof (cases "pages = []")
    case True
    then show ?thesis by (simp add: e)
  next
    case False
    with Cons.prems Cons.IH show ?thesis by (simp add: e last_flag_at_end_def)
  qed
qed

subsection \<open>The finder: the policy on the accumulated sequence\<close>

lemma visited_subset: "set (visited pages) \<subseteq> fst ` set pages"
  by (induction pages rule: visited.induct) auto

lemma list_destinations_eq:
  assumes "ListRumMetricsDestinations c (list_input name) = (pages, err)"
  shows "list_destinations c name =
     (if list_ex snd pages then None else err, concat (map entries (visited pages)))"
  using assms by (simp add: list_destinations_def ListPages_collect)

lemma only_null_entries_drained_empty:
  assumes "ListRumMetricsDestinations c (list_input name) = (pages, None)"
      and "\<forall>e \<in> set pages. entries (fst e) = []"
  shows "list_destinations c name = (None, [])"
proof -
  have "\<forall>p \<in> set (visited pages). entries p = []"
    using assms(2) visited_subset [of pages] by auto
  then have "concat (map entries (visited pages)) = []"
    by simp
  then show ?thesis
    using list_destinations_eq [OF assms(1)] by simp
qed

text \<open>
  Claim C1. When the listing is drained without a remote error and no non-null entry was
  accumulated, the finder fails with the empty-result error, which is a
  \<open>NotFoundError\<close> and is recognised as not found; it returns no record.
\<close>

theorem Find_empty_is_NotFoundError:
  assumes "list_destinations c name = (None, [])"
  shows "FindMetricsDestinationByName c name = Inl (NewEmptyResultError (list_input name))
       \<and> FindMetricsDestinationByName c name = Inl (NotFoundError None (list_input name))
       \<and> NotFound (err_of (FindMetricsDestinationByName c name))
       \<and> (\<forall>rec. FindMetricsDestinationByName c name \<noteq> Inr rec)"
  using assms by (simp add: FindMetricsDestinationByName_def NewEmptyResultError_def)

theorem Find_empty_is_NotFoundError_witness:
  "list_destinations
       (sample_conn None None ([(page_of [None, None], False), (None, False), (page_of [], True)], None))
       ''app1'' = (None, [])
   \<and> FindMetricsDestinationByName
       (sample_conn None None ([(page_of [None, None], False), (None, False), (page_of [], True)], None))
       ''app1'' = Inl (NotFoundError None \<lparr>list_AppMonitorName = ''app1''\<rparr>)"
proof -
  let ?c = "sample_conn None None
     ([(page_of [None, None], False), (None, False), (page_of [], True)], None)"
  have h: "list_destinations ?c ''app1'' = (None, [])"
    by (simp add: list_destinations_def sample_conn_def page_of_def collect_def)
  show ?thesis
    using h Find_empty_is_NotFoundError [OF h] by (simp add: list_input_def NewEmptyResultError_def)
qed

text \<open>
  Claim C2. When the listing is drained without a remote error and two or more non-null
  entries were accumulated, the finder fails with the too-many-results error carrying
  exactly the number of accumulated entries; it returns none of the entries.
\<close>

theorem Find_many_is_TooManyResultsError:
  assumes "list_destinations c name = (None, out)" and "2 \<le> length out"
  shows "FindMetricsDestinationByName c name =
           Inl (NewTooManyResultsError (length out) (list_input name))
       \<and> FindMetricsDestinationByName c name =
           Inl (TooManyResultsError (length out) (list_input name))
       \<and> (\<forall>rec. FindMetricsDestinationByName c name \<noteq> Inr rec)"
  using assms by (auto simp add: FindMetricsDestinationByName_def NewTooManyResultsError_def)

theorem Find_many_is_TooManyResultsError_witness:
  "list_destinations
       (sample_conn None None
          ([(page_of [Some cw_summary], False), (page_of [None, Some ev_summary, Some cw_summary], True)], None))
       ''app1'' = (None, [cw_summary, ev_summary, cw_summary])
   \<and> FindMetricsDestinationByName
       (sample_conn None None
          ([(page_of [Some cw_summary], False), (page_of [None, Some ev_summary, Some cw_summary], True)], None))
       ''app1'' = Inl (TooManyResultsError 3 \<lparr>list_AppMonitorName = ''app1''\<rparr>)"
proof -
  let ?c = "sample_conn None None
     ([(page_of [Some cw_summary], False), (page_of [None, Some ev_summary, Some cw_summary], True)], None)"
  have h: "list_destinations ?c ''app1'' = (None, [cw_summary, ev_summary, cw_summary])"
    by (simp add: list_destinations_def sample_conn_def page_of_def collect_def)
  have l: "2 \<le> length [cw_summary, ev_summary, cw_summary]"
    by simp
  show ?thesis
    using h Find_many_is_TooManyResultsError [OF h l] by (simp add: list_input_def NewTooManyResultsError_def)
qed


subsection \<open>Not found by the remote, not found by an empty result\<close>

text \<open>
  Claim C3, as stated, fails: a listing that ends with the service's
  \<^verbatim>\<open>ResourceNotFoundException\<close> and a listing that is drained with nothing in it give
  two different results. The first is built at lines 163 to 166 with
  \<^verbatim>\<open>LastError: err\<close>, the second by \<^verbatim>\<open>NewEmptyResultError(input)\<close>, which never
  sees a remote error. Two remote failures with the not-found code and different
  messages already give two different results, so no single empty-result value equals
  them all.
\<close>

theorem remote_not_found_differs_from_empty:
  "ErrCodeEquals (fst (list_destinations (sample_conn None None ([], Some gone)) ''app1''))
       ErrCodeResourceNotFoundException
   \<and> list_destinations (sample_conn None None ([(page_of [], True)], None)) ''app1'' = (None, [])
   \<and> FindMetricsDestinationByName (sample_conn None None ([], Some gone)) ''app1''
       \<noteq> FindMetricsDestinationByName (sample_conn None None ([(page_of [], True)], None)) ''app1''
   \<and> ErrCodeEquals (fst (list_destinations (sample_conn None None ([], Some gone_too)) ''app1''))
       ErrCodeResourceNotFoundException
   \<and> FindMetricsDestinationByName (sample_conn None None ([], Some gone)) ''app1''
       \<noteq> FindMetricsDestinationByName (sample_conn None None ([], Some gone_too)) ''app1''"
  by (simp add: FindMetricsDestinationByName_def list_destinations_def sample_conn_def
      page_of_def collect_def gone_def gone_too_def ErrCodeResourceNotFoundException_def
      NewEmptyResultError_def)

lemma Read_not_found_old:
  assumes "NotFound (err_of (FindMetricsDestinationByName c (Id_rd d)))" and "\<not> IsNewResource d"
  shows "resourceMetricsDestinationRead c d = (SetId d [], [])"
  using assms by (simp add: resourceMetricsDestinationRead_def)

text \<open>
  Claim C3, amended. The remote failure with the not-found code gives a
  \<open>NotFoundError\<close> whose \<open>LastError\<close> is that remote error; the empty result gives a
  \<open>NotFoundError\<close> with none. Both carry the same request, both are recognised as not
  found, and Read of a resource that is not new answers the same to both: it clears the
  identifier and reports nothing.
\<close>

theorem remote_not_found_and_empty_both_NotFound:
  assumes "ErrCodeEquals (fst (list_destinations c1 name)) ErrCodeResourceNotFoundException"
      and "list_destinations c2 name = (None, [])"
      and "\<not> IsNewResource d" and "Id_rd d = name"
  shows "(\<exists>e. fst (list_destinations c1 name) = Some e
            \<and> FindMetricsDestinationByName c1 name = Inl (NotFoundError (Some e) (list_input name)))
       \<and> FindMetricsDestinationByName c2 name = Inl (NotFoundError None (list_input name))
       \<and> NotFound (err_of (FindMetricsDestinationByName c1 name))
       \<and> NotFound (err_of (FindMetricsDestinationByName c2 name))
       \<and> resourceMetricsDestinationRead c1 d = (SetId d [], [])
       \<and> resourceMetricsDestinationRead c2 d = (SetId d [], [])"
proof -
  obtain e where e: "fst (list_destinations c1 name) = Some e"
    using assms(1) by (cases "fst (list_destinations c1 name)") simp_all
  obtain out where l1: "list_destinations c1 name = (Some e, out)"
    using e by (cases "list_destinations c1 name") simp
  have f1: "FindMetricsDestinationByName c1 name = Inl (NotFoundError (Some e) (list_input name))"
    using assms(1) by (simp add: FindMetricsDestinationByName_def l1)
  have f2: "FindMetricsDestinationByName c2 name = Inl (NotFoundError None (list_input name))"
    using assms(2) by (simp add: FindMetricsDestinationByName_def NewEmptyResultError_def)
  have n1: "NotFound (err_of (FindMetricsDestinationByName c1 (Id_rd d)))"
    by (simp add: assms(4) f1)
  have n2: "NotFound (err_of (FindMetricsDestinationByName c2 (Id_rd d)))"
    by (simp add: assms(4) f2)
  show ?thesis
    using e f1 f2 Read_not_found_old [OF n1 assms(3)] Read_not_found_old [OF n2 assms(3)]
    by simp
qed

theorem remote_not_found_and_empty_both_NotFound_witness:
  "FindMetricsDestinationByName (sample_conn None None ([], Some gone)) ''app1''
       = Inl (NotFoundError (Some gone) (list_input ''app1''))
   \<and> FindMetricsDestinationByName (sample_conn None None ([(page_of [], True)], None)) ''app1''
       = Inl (NotFoundError None (list_input ''app1''))
   \<and> resourceMetricsDestinationRead (sample_conn None None ([], Some gone)) old_rd
       = (SetId old_rd [], [])
   \<and> resourceMetricsDestinationRead (sample_conn None None ([(page_of [], True)], None)) old_rd
       = (SetId old_rd [], [])"
proof -
  let ?c1 = "sample_conn None None ([], Some gone)"
  let ?c2 = "sample_conn None None ([(page_of [], True)], None)"
  have l1: "list_destinations ?c1 ''app1'' = (Some gone, [])"
    by (simp add: list_destinations_def sample_conn_def)
  have h1: "ErrCodeEquals (fst (list_destinations ?c1 ''app1'')) ErrCodeResourceNotFoundException"
    unfolding l1 by (simp add: gone_def ErrCodeResourceNotFoundException_def)
  have h2: "list_destinations ?c2 ''app1'' = (None, [])"
    by (simp add: list_destinations_def sample_conn_def page_of_def collect_def)
  have h3: "\<not> IsNewResource old_rd"
    by (simp add: IsNewResource_def old_rd_def)
  have h4: "Id_rd old_rd = ''app1''"
    by (simp add: Id_rd_def old_rd_def)
  show ?thesis
    using remote_not_found_and_empty_both_NotFound [OF h1 h2 h3 h4] l1 by simp
qed

subsection \<open>The finder: draining the pages\<close>

lemma Find_decides:
  assumes "list_destinations c name = (None, acc)"
  shows "FindMetricsDestinationByName c name =
     (case acc of
        [] \<Rightarrow> Inl (NewEmptyResultError (list_input name))
      | [x] \<Rightarrow> Inr x
      | x # y # zs \<Rightarrow> Inl (NewTooManyResultsError (length (x # y # zs)) (list_input name)))"
proof (cases acc)
  case Nil
  with assms show ?thesis by (simp add: FindMetricsDestinationByName_def)
next
  case (Cons x rest)
  with assms show ?thesis
    by (cases rest) (simp_all add: FindMetricsDestinationByName_def)
qed

lemma ListPages_collect_Cons:
  "ListRumMetricsDestinationsPagesWithContext collect ((page, lastPage) # pages) err acc =
     (if lastPage then (None, acc @ entries page)
      else ListRumMetricsDestinationsPagesWithContext collect pages err (acc @ entries page))"
  unfolding ListRumMetricsDestinationsPagesWithContext.simps collect_entries by simp

lemma ListPages_collect_skip_nil:
  "ListRumMetricsDestinationsPagesWithContext collect (before @ (None, False) # rest) err acc
     = ListRumMetricsDestinationsPagesWithContext collect (before @ rest) err acc"
proof (induction before arbitrary: acc)
  case Nil
  show ?case by (simp only: append_Nil ListPages_collect_Cons) simp
next
  case (Cons e before)
  obtain page lastPage where e: "e = (page, lastPage)" by (cases e)
  show ?case
    by (simp only: e append_Cons ListPages_collect_Cons Cons.IH)
qed

text \<open>
  Claim C4. For every name and every finite sequence of pages of the listing, in which
  no page but the final one is flagged as the last, the finder's callback is run on all
  of them, and the accumulated sequence is the concatenation, in page order and in the
  order within each page, of the non-null entries of each page: nil entries and nil
  pages add nothing, nothing is repeated or moved. Only then does the finder decide,
  and when the listing gave no error it decides on that sequence alone.
\<close>

theorem accumulated_is_concat_of_non_null:
  assumes "ListRumMetricsDestinations c (list_input name) = (pages, err)"
      and "last_flag_at_end pages"
  shows "snd (list_destinations c name) = concat (map (\<lambda>e. entries (fst e)) pages)
       \<and> (fst (list_destinations c name) = None \<longrightarrow>
            FindMetricsDestinationByName c name =
              (case concat (map (\<lambda>e. entries (fst e)) pages) of
                 [] \<Rightarrow> Inl (NewEmptyResultError (list_input name))
               | [x] \<Rightarrow> Inr x
               | x # y # zs \<Rightarrow>
                   Inl (NewTooManyResultsError (length (x # y # zs)) (list_input name))))"
proof -
  let ?acc = "concat (map (\<lambda>e. entries (fst e)) pages)"
  have v: "concat (map entries (visited pages)) = ?acc"
    by (simp add: visited_all [OF assms(2)] comp_def)
  have l: "list_destinations c name = (if list_ex snd pages then None else err, ?acc)"
    using list_destinations_eq [OF assms(1)] v by simp
  have "FindMetricsDestinationByName c name =
          (case ?acc of
             [] \<Rightarrow> Inl (NewEmptyResultError (list_input name))
           | [x] \<Rightarrow> Inr x
           | x # y # zs \<Rightarrow>
               Inl (NewTooManyResultsError (length (x # y # zs)) (list_input name)))"
    if "fst (list_destinations c name) = None"
  proof -
    have "list_destinations c name = (None, ?acc)"
      using that l by (metis fst_conv)
    then show ?thesis
      by (rule Find_decides)
  qed
  then show ?thesis
    using l by simp
qed

theorem accumulated_is_concat_of_non_null_witness:
  "last_flag_at_end
     [(page_of [Some cw_summary, None], False), (None, False), (page_of [None, Some ev_summary], True)]
   \<and> snd (list_destinations
        (sample_conn None None
           ([(page_of [Some cw_summary, None], False), (None, False),
             (page_of [None, Some ev_summary], True)], None)) ''app1'')
       = [cw_summary, ev_summary]
   \<and> FindMetricsDestinationByName
        (sample_conn None None
           ([(page_of [Some cw_summary, None], False), (None, False),
             (page_of [None, Some ev_summary], True)], None)) ''app1''
       = Inl (TooManyResultsError 2 (list_input ''app1''))"
proof -
  let ?pages = "[(page_of [Some cw_summary, None], False), (None, False),
                 (page_of [None, Some ev_summary], True)]"
  let ?c = "sample_conn None None (?pages, None)"
  have h1: "ListRumMetricsDestinations ?c (list_input ''app1'') = (?pages, None)"
    by (simp add: sample_conn_def)
  have h2: "last_flag_at_end ?pages"
    by (simp add: last_flag_at_end_def)
  have h3: "fst (list_destinations ?c ''app1'') = None"
    by (simp add: list_destinations_def sample_conn_def page_of_def collect_def)
  show ?thesis
    using accumulated_is_concat_of_non_null [OF h1 h2] h2 h3
    by (simp add: page_of_def NewTooManyResultsError_def)
qed

text \<open>
  Claim C9. A nil page is handled and skipped. The callback leaves the accumulated
  sequence as it is and answers \<^verbatim>\<open>!lastPage\<close> as for any other page: a nil page that
  is not the last, anywhere in the listing, changes neither the error nor the accumulated
  sequence and does not stop the scan; the scan stops at a nil page only when the
  paginator flags it as the last.
\<close>

theorem nil_page_is_skipped:
  "collect None lastPage acc = (\<not> lastPage, acc)
   \<and> ListRumMetricsDestinationsPagesWithContext collect (before @ (None, False) # rest) err acc
       = ListRumMetricsDestinationsPagesWithContext collect (before @ rest) err acc
   \<and> ListRumMetricsDestinationsPagesWithContext collect ((None, True) # rest) err acc = (None, acc)"
proof -
  have stop:
    "ListRumMetricsDestinationsPagesWithContext collect ((None, True) # rest) err acc = (None, acc)"
    by (simp only: ListPages_collect_Cons) simp
  show ?thesis
    using ListPages_collect_skip_nil [of before rest err acc] stop by (simp add: collect_def)
qed

subsection \<open>Put\<close>

lemma Read_new_keeps_id:
  assumes "IsNewResource d"
  shows "Id_rd (fst (resourceMetricsDestinationRead c d)) = Id_rd d"
  using assms
  by (simp add: resourceMetricsDestinationRead_def Let_def Id_rd_def Set_rd_def
      split: sum.splits)

lemma Read_id_kept_or_cleared:
  "Id_rd (fst (resourceMetricsDestinationRead c d)) = Id_rd d
   \<or> Id_rd (fst (resourceMetricsDestinationRead c d)) = []"
  by (simp add: resourceMetricsDestinationRead_def Let_def Id_rd_def Set_rd_def SetId_def
      split: sum.splits)

lemma Put_failed:
  assumes "PutRumMetricsDestination c (put_input d) = Some err"
  shows "resourceMetricsDestinationPut c d =
     (d, [ErrorDiag ''putting CloudWatch RUM Metrics Destination (%s): %s''
            [StrArg (Get d AppMonitorName), ErrArg (RemoteError err)]])"
  using assms by (simp add: resourceMetricsDestinationPut_def AppendErrorf_def)

lemma Put_succeeded:
  assumes "PutRumMetricsDestination c (put_input d) = None"
  shows "resourceMetricsDestinationPut c d =
     resourceMetricsDestinationRead c
       (if IsNewResource d then SetId d (Get d AppMonitorName) else d)"
  using assms by (simp add: resourceMetricsDestinationPut_def Let_def split: prod.splits)

text \<open>
  Claim C5. When the remote put call fails, Put returns the resource data as it was
  (identifier and attributes), with one error diagnostic that carries the operation
  (putting), the app monitor name that serves as identifier, and the cause. When the call
  succeeds and the resource is new (no identifier assigned so far), Put sets the
  identifier to the app monitor name and reads; the identifier it returns is that name.
  When the call succeeds and the resource is not new, Put assigns nothing: it is the
  Read of the same data, so the identifier is kept, or cleared by Read.
\<close>

theorem Put_assigns_id_only_after_success:
  "(\<forall>err. PutRumMetricsDestination c (put_input d) = Some err \<longrightarrow>
      resourceMetricsDestinationPut c d =
        (d, [ErrorDiag ''putting CloudWatch RUM Metrics Destination (%s): %s''
               [StrArg (Get d AppMonitorName), ErrArg (RemoteError err)]]))
   \<and> (PutRumMetricsDestination c (put_input d) = None \<and> IsNewResource d \<longrightarrow>
      resourceMetricsDestinationPut c d
        = resourceMetricsDestinationRead c (SetId d (Get d AppMonitorName))
      \<and> Id_rd (fst (resourceMetricsDestinationPut c d)) = Get d AppMonitorName)
   \<and> (PutRumMetricsDestination c (put_input d) = None \<and> \<not> IsNewResource d \<longrightarrow>
      resourceMetricsDestinationPut c d = resourceMetricsDestinationRead c d
      \<and> (Id_rd (fst (resourceMetricsDestinationPut c d)) = Id_rd d
         \<or> Id_rd (fst (resourceMetricsDestinationPut c d)) = []))"
proof -
  have new: "Id_rd (fst (resourceMetricsDestinationRead c (SetId d (Get d AppMonitorName))))
      = Get d AppMonitorName" if "IsNewResource d"
  proof -
    have "IsNewResource (SetId d (Get d AppMonitorName))"
      using that by (simp add: IsNewResource_def SetId_def)
    then show ?thesis
      using Read_new_keeps_id [of "SetId d (Get d AppMonitorName)" c]
      by (simp add: Id_rd_def SetId_def)
  qed
  show ?thesis
    using Put_failed [of c d] Put_succeeded [of c d] new Read_id_kept_or_cleared [of c d]
    by auto
qed

theorem Put_assigns_id_only_after_success_witness:
  "resourceMetricsDestinationPut (sample_conn (Some throttled) None ([], None)) new_rd =
     (new_rd, [ErrorDiag ''putting CloudWatch RUM Metrics Destination (%s): %s''
                 [StrArg ''app1'', ErrArg (RemoteError throttled)]])
   \<and> Id_rd new_rd = []
   \<and> Id_rd (fst (resourceMetricsDestinationPut
        (sample_conn None None ([(page_of [Some cw_summary], True)], None)) new_rd)) = ''app1''
   \<and> resourceMetricsDestinationPut
        (sample_conn None None ([(page_of [Some cw_summary], True)], None)) old_rd
       = resourceMetricsDestinationRead
        (sample_conn None None ([(page_of [Some cw_summary], True)], None)) old_rd"
proof -
  let ?bad = "sample_conn (Some throttled) None ([], None)"
  let ?ok = "sample_conn None None ([(page_of [Some cw_summary], True)], None)"
  have h1: "PutRumMetricsDestination ?bad (put_input new_rd) = Some throttled"
    by (simp add: sample_conn_def)
  have h2: "PutRumMetricsDestination ?ok (put_input new_rd) = None \<and> IsNewResource new_rd"
    by (simp add: sample_conn_def IsNewResource_def new_rd_def)
  have h3: "PutRumMetricsDestination ?ok (put_input old_rd) = None \<and> \<not> IsNewResource old_rd"
    by (simp add: sample_conn_def IsNewResource_def old_rd_def)
  have n: "Get new_rd AppMonitorName = ''app1''" "Id_rd new_rd = []"
    by (simp_all add: Get_def Id_rd_def new_rd_def)
  have r1: "resourceMetricsDestinationPut ?bad new_rd =
      (new_rd, [ErrorDiag ''putting CloudWatch RUM Metrics Destination (%s): %s''
                  [StrArg (Get new_rd AppMonitorName), ErrArg (RemoteError throttled)]])"
    using Put_assigns_id_only_after_success [of ?bad new_rd] h1 by blast
  have r2: "Id_rd (fst (resourceMetricsDestinationPut ?ok new_rd)) = Get new_rd AppMonitorName"
    using Put_assigns_id_only_after_success [of ?ok new_rd] h2 by blast
  have r3: "resourceMetricsDestinationPut ?ok old_rd = resourceMetricsDestinationRead ?ok old_rd"
    using Put_assigns_id_only_after_success [of ?ok old_rd] h3 by blast
  show ?thesis
    using r1 r2 r3 unfolding n by (intro conjI) simp_all
qed


subsection \<open>Read\<close>

lemma Read_failed:
  assumes "FindMetricsDestinationByName c (Id_rd d) = Inl e"
      and "IsNewResource d \<or> \<not> NotFound (Some e)"
  shows "resourceMetricsDestinationRead c d =
     (d, [ErrorDiag ''reading CloudWatch RUM Metrics Destination (%s): %s''
            [StrArg (Id_rd d), ErrArg e]])"
  using assms by (auto simp add: resourceMetricsDestinationRead_def AppendErrorf_def)

lemma NotFound_is_error:
  assumes "NotFound (err_of r)"
  obtains e where "r = Inl e"
  using assms by (cases r) simp_all

text \<open>
  Claim C6. When the finder reports not found and the resource is not new, Read
  succeeds with no diagnostic and clears the identifier. When the finder reports not
  found and the resource is new, Read returns an error diagnostic (reading, the identifier,
  the cause) and leaves the data alone. Any error of the finder that is not a not-found
  is returned as such a diagnostic, whether the resource is new or not.
\<close>

theorem Read_on_lookup_errors:
  "(NotFound (err_of (FindMetricsDestinationByName c (Id_rd d))) \<and> \<not> IsNewResource d \<longrightarrow>
      resourceMetricsDestinationRead c d = (SetId d [], [])
      \<and> Id_rd (fst (resourceMetricsDestinationRead c d)) = []
      \<and> snd (resourceMetricsDestinationRead c d) = [])
   \<and> (NotFound (err_of (FindMetricsDestinationByName c (Id_rd d))) \<and> IsNewResource d \<longrightarrow>
      (\<exists>e. FindMetricsDestinationByName c (Id_rd d) = Inl e
         \<and> resourceMetricsDestinationRead c d =
             (d, [ErrorDiag ''reading CloudWatch RUM Metrics Destination (%s): %s''
                    [StrArg (Id_rd d), ErrArg e]])))
   \<and> (\<forall>e. FindMetricsDestinationByName c (Id_rd d) = Inl e \<and> \<not> NotFound (Some e) \<longrightarrow>
      resourceMetricsDestinationRead c d =
        (d, [ErrorDiag ''reading CloudWatch RUM Metrics Destination (%s): %s''
               [StrArg (Id_rd d), ErrArg e]]))"
proof (intro conjI impI allI)
  assume a: "NotFound (err_of (FindMetricsDestinationByName c (Id_rd d))) \<and> \<not> IsNewResource d"
  then show r: "resourceMetricsDestinationRead c d = (SetId d [], [])"
    by (simp add: Read_not_found_old)
  show "Id_rd (fst (resourceMetricsDestinationRead c d)) = []"
    by (simp add: r Id_rd_def SetId_def)
  show "snd (resourceMetricsDestinationRead c d) = []"
    by (simp add: r)
next
  assume a: "NotFound (err_of (FindMetricsDestinationByName c (Id_rd d))) \<and> IsNewResource d"
  then obtain e where e: "FindMetricsDestinationByName c (Id_rd d) = Inl e"
    by (auto elim: NotFound_is_error)
  with a show "\<exists>e. FindMetricsDestinationByName c (Id_rd d) = Inl e
         \<and> resourceMetricsDestinationRead c d =
             (d, [ErrorDiag ''reading CloudWatch RUM Metrics Destination (%s): %s''
                    [StrArg (Id_rd d), ErrArg e]])"
    using Read_failed [of c d e] by simp
next
  fix e
  assume "FindMetricsDestinationByName c (Id_rd d) = Inl e \<and> \<not> NotFound (Some e)"
  then show "resourceMetricsDestinationRead c d =
        (d, [ErrorDiag ''reading CloudWatch RUM Metrics Destination (%s): %s''
               [StrArg (Id_rd d), ErrArg e]])"
    using Read_failed [of c d e] by simp
qed

theorem Read_on_lookup_errors_witness:
  "resourceMetricsDestinationRead (sample_conn None None ([], Some gone)) old_rd
     = (SetId old_rd [], [])
   \<and> resourceMetricsDestinationRead (sample_conn None None ([], Some gone)) (SetId new_rd ''app1'')
     = (SetId new_rd ''app1'',
        [ErrorDiag ''reading CloudWatch RUM Metrics Destination (%s): %s''
           [StrArg ''app1'', ErrArg (NotFoundError (Some gone) (list_input ''app1''))]])
   \<and> resourceMetricsDestinationRead (sample_conn None None ([], Some throttled)) old_rd
     = (old_rd,
        [ErrorDiag ''reading CloudWatch RUM Metrics Destination (%s): %s''
           [StrArg ''app1'', ErrArg (RemoteError throttled)]])
   \<and> resourceMetricsDestinationRead (sample_conn None None ([], Some throttled)) (SetId new_rd ''app1'')
     = (SetId new_rd ''app1'',
        [ErrorDiag ''reading CloudWatch RUM Metrics Destination (%s): %s''
           [StrArg ''app1'', ErrArg (RemoteError throttled)]])"
proof -
  let ?gone = "sample_conn None None ([], Some gone)"
  let ?busy = "sample_conn None None ([], Some throttled)"
  let ?new = "SetId new_rd ''app1''"
  have ids: "Id_rd old_rd = ''app1''" "Id_rd ?new = ''app1''"
    by (simp_all add: Id_rd_def SetId_def old_rd_def)
  have flags: "\<not> IsNewResource old_rd" "IsNewResource ?new"
    by (simp_all add: IsNewResource_def SetId_def old_rd_def new_rd_def)
  have fg: "FindMetricsDestinationByName ?gone ''app1''
      = Inl (NotFoundError (Some gone) (list_input ''app1''))"
    by (simp add: FindMetricsDestinationByName_def list_destinations_def sample_conn_def
        gone_def ErrCodeResourceNotFoundException_def)
  have fb: "FindMetricsDestinationByName ?busy ''app1'' = Inl (RemoteError throttled)"
    by (simp add: FindMetricsDestinationByName_def list_destinations_def sample_conn_def
        throttled_def ErrCodeResourceNotFoundException_def)
  have nb: "\<not> NotFound (Some (RemoteError throttled))"
    by simp
  have r1: "resourceMetricsDestinationRead ?gone old_rd = (SetId old_rd [], [])"
    using Read_on_lookup_errors [of ?gone old_rd] flags(1) by (simp add: ids fg)
  have r2: "resourceMetricsDestinationRead ?gone ?new =
      (?new, [ErrorDiag ''reading CloudWatch RUM Metrics Destination (%s): %s''
                [StrArg ''app1'', ErrArg (NotFoundError (Some gone) (list_input ''app1''))]])"
    using Read_on_lookup_errors [of ?gone ?new] flags(2) by (simp add: ids fg)
  have r3: "resourceMetricsDestinationRead ?busy old_rd =
      (old_rd, [ErrorDiag ''reading CloudWatch RUM Metrics Destination (%s): %s''
                  [StrArg ''app1'', ErrArg (RemoteError throttled)]])"
    using Read_on_lookup_errors [of ?busy old_rd] nb by (simp add: ids fb)
  have r4: "resourceMetricsDestinationRead ?busy ?new =
      (?new, [ErrorDiag ''reading CloudWatch RUM Metrics Destination (%s): %s''
                [StrArg ''app1'', ErrArg (RemoteError throttled)]])"
    using Read_on_lookup_errors [of ?busy ?new] nb by (simp add: ids fb)
  show ?thesis
    using r1 r2 r3 r4 by simp
qed

subsection \<open>Delete\<close>

text \<open>
  Claim C7. The delete request carries the identifier and the destination. When the
  remote delete call fails with the service's \<^verbatim>\<open>ResourceNotFoundException\<close>, Delete
  returns no diagnostic. Any other failure is returned as one error diagnostic that
  carries the operation (deleting), the identifier and the cause. Without a failure there
  is no diagnostic.
\<close>

theorem Delete_not_found_is_success:
  "del_AppMonitorName (delete_input d) = Id_rd d
   \<and> del_Destination (delete_input d) = Get d AttrDestination
   \<and> (ErrCodeEquals (DeleteRumMetricsDestination c (delete_input d))
         ErrCodeResourceNotFoundException \<longrightarrow>
      snd (resourceMetricsDestinationDelete c d) = [])
   \<and> (\<forall>e. DeleteRumMetricsDestination c (delete_input d) = Some e
         \<and> \<not> ErrCodeEquals (Some e) ErrCodeResourceNotFoundException \<longrightarrow>
      snd (resourceMetricsDestinationDelete c d) =
        [ErrorDiag ''deleting CloudWatch RUM Metrics Destination (%s): %s''
           [StrArg (Id_rd d), ErrArg (RemoteError e)]])
   \<and> (DeleteRumMetricsDestination c (delete_input d) = None \<longrightarrow>
      snd (resourceMetricsDestinationDelete c d) = [])"
  by (auto simp add: resourceMetricsDestinationDelete_def delete_input_def GetOk_def
      AppendErrorf_def Let_def)

theorem Delete_not_found_is_success_witness:
  "snd (resourceMetricsDestinationDelete (sample_conn None (Some gone) ([], None)) old_rd) = []
   \<and> snd (resourceMetricsDestinationDelete (sample_conn None (Some throttled) ([], None)) old_rd)
       = [ErrorDiag ''deleting CloudWatch RUM Metrics Destination (%s): %s''
            [StrArg ''app1'', ErrArg (RemoteError throttled)]]
   \<and> snd (resourceMetricsDestinationDelete (sample_conn None None ([], None)) old_rd) = []"
proof -
  let ?gone = "sample_conn None (Some gone) ([], None)"
  let ?busy = "sample_conn None (Some throttled) ([], None)"
  let ?ok = "sample_conn None None ([], None)"
  have h1: "ErrCodeEquals (DeleteRumMetricsDestination ?gone (delete_input old_rd))
      ErrCodeResourceNotFoundException"
    by (simp add: sample_conn_def gone_def ErrCodeResourceNotFoundException_def)
  have h2: "DeleteRumMetricsDestination ?busy (delete_input old_rd) = Some throttled
      \<and> \<not> ErrCodeEquals (Some throttled) ErrCodeResourceNotFoundException"
    by (simp add: sample_conn_def throttled_def ErrCodeResourceNotFoundException_def)
  have h3: "DeleteRumMetricsDestination ?ok (delete_input old_rd) = None"
    by (simp add: sample_conn_def)
  have i: "Id_rd old_rd = ''app1''"
    by (simp add: Id_rd_def old_rd_def)
  have r1: "snd (resourceMetricsDestinationDelete ?gone old_rd) = []"
    using Delete_not_found_is_success [of old_rd ?gone] h1 by blast
  have r2: "snd (resourceMetricsDestinationDelete ?busy old_rd) =
      [ErrorDiag ''deleting CloudWatch RUM Metrics Destination (%s): %s''
         [StrArg (Id_rd old_rd), ErrArg (RemoteError throttled)]]"
    using Delete_not_found_is_success [of old_rd ?busy] h2 by blast
  have r3: "snd (resourceMetricsDestinationDelete ?ok old_rd) = []"
    using Delete_not_found_is_success [of old_rd ?ok] h3 by blast
  show ?thesis
    using r1 r2 r3 unfolding i by simp
qed

subsection \<open>The put request\<close>

text \<open>
  Claim C8. The request Put sends always carries the app monitor name and the
  destination. It carries the destination ARN (and likewise the IAM role ARN) exactly
  when the attribute is set to a non-empty string, with that string; otherwise the field
  stays nil. An empty string is never sent.
\<close>

theorem put_input_fields:
  "put_AppMonitorName (put_input d) = Get d AppMonitorName
   \<and> put_Destination (put_input d) = Get d AttrDestination
   \<and> put_DestinationArn (put_input d) =
       (case rd_attrs d AttrDestinationARN of
          None \<Rightarrow> None
        | Some v \<Rightarrow> if v = [] then None else Some v)
   \<and> put_IamRoleArn (put_input d) =
       (case rd_attrs d AttrIAMRoleARN of
          None \<Rightarrow> None
        | Some v \<Rightarrow> if v = [] then None else Some v)
   \<and> put_DestinationArn (put_input d) \<noteq> Some []
   \<and> put_IamRoleArn (put_input d) \<noteq> Some []"
  by (simp add: put_input_def GetOk_def Get_def Let_def split: option.splits)

subsection \<open>Delete and the resource data\<close>

text \<open>
  Claim C10. Delete leaves the resource data as it found it, identifier and attributes,
  whatever the remote call answers: success, not found, or another error.
\<close>

theorem Delete_leaves_resource_data:
  "fst (resourceMetricsDestinationDelete c d) = d"
  by (simp add: resourceMetricsDestinationDelete_def Let_def split: option.splits)

end
